theory Spec2Isabelle
  imports Main "HOL-Library.Sublist"
begin

section \<open>Strings\<close>

text \<open>
  A JavaScript string is modelled as a \<^typ>\<open>string\<close>: a list of code units, each below 256
  (the Latin-1 range). The string methods the scanner uses are written out on that range.
\<close>

text \<open>\<^verbatim>\<open>s.includes(sub)\<close>: \<open>sub\<close> occurs in \<open>s\<close> as a contiguous block; the empty string
  occurs everywhere.\<close>

fun str_includes :: "string \<Rightarrow> string \<Rightarrow> bool" where
  "str_includes [] sub = (sub = [])"
| "str_includes (c # cs) sub = (prefix sub (c # cs) \<or> str_includes cs sub)"

text \<open>\<^verbatim>\<open>s.toLowerCase()\<close> on code units below 256: the letters A-Z and the accented capitals
  0xC0-0xDE (without the multiplication sign 0xD7) move up by 32.\<close>

definition toLowerCase_char :: "char \<Rightarrow> char" where
  "toLowerCase_char c =
     (let n = (of_char c :: nat)
      in if (65 \<le> n \<and> n \<le> 90) \<or> (192 \<le> n \<and> n \<le> 222 \<and> n \<noteq> 215)
         then char_of (n + 32) else c)"

definition toLowerCase :: "string \<Rightarrow> string" where
  "toLowerCase s = map toLowerCase_char s"

text \<open>\<^verbatim>\<open>s.replace(/\.$/, "")\<close>: one trailing dot is removed.\<close>

definition strip_trailing_dot :: "string \<Rightarrow> string" where
  "strip_trailing_dot s = (if s \<noteq> [] \<and> last s = CHR ''.'' then butlast s else s)"

text \<open>\<^verbatim>\<open>s.trim()\<close>: white space and line terminators below 256 are tab, line feed, vertical
  tab, form feed, carriage return, space and the no-break space.\<close>

definition is_js_space :: "char \<Rightarrow> bool" where
  "is_js_space c = (c \<in> set [CHR 0x09, CHR 0x0A, CHR 0x0B, CHR 0x0C, CHR 0x0D, CHR 0x20, CHR 0xA0])"

definition trim :: "string \<Rightarrow> string" where
  "trim s = rev (dropWhile is_js_space (rev (dropWhile is_js_space s)))"

text \<open>\<^verbatim>\<open>String(n)\<close> for an integer \<open>n\<close>.\<close>

fun show_nat :: "nat \<Rightarrow> string" where
  "show_nat n =
     (if n < 10 then [char_of (48 + n)]
      else show_nat (n div 10) @ [char_of (48 + n mod 10)])"

declare show_nat.simps [simp del]

definition show_int :: "int \<Rightarrow> string" where
  "show_int i = (if i < 0 then CHR ''-'' # show_nat (nat (- i)) else show_nat (nat i))"

text \<open>\<^verbatim>\<open>xs.join(sep)\<close>.\<close>

fun join :: "string \<Rightarrow> string list \<Rightarrow> string" where
  "join sep [] = []"
| "join sep [x] = x"
| "join sep (x # y # ys) = x @ sep @ join sep (y # ys)"

section \<open>Input parsing\<close>

text \<open>\<^verbatim>\<open>text.split(/\r?\n/)\<close>: a line feed, or a carriage return directly followed by a
  line feed, separates two lines; the result always has at least one line.\<close>

fun split_lines :: "string \<Rightarrow> string list" where
  "split_lines [] = [] # []"
| "split_lines (c # cs) =
     (if c = CHR 0x0A then [] # split_lines cs
      else if c = CHR 0x0D \<and> cs \<noteq> [] \<and> hd cs = CHR 0x0A then [] # split_lines (tl cs)
      else (case split_lines cs of
              [] \<Rightarrow> [c] # []
            | l # ls \<Rightarrow> (c # l) # ls))"

text \<open>\<^verbatim>\<open>line.split(",")[0]\<close>: the text before the first comma.\<close>

definition first_column :: "string \<Rightarrow> string" where
  "first_column line = takeWhile (\<lambda>c. c \<noteq> CHR '','') line"

definition is_quote :: "char \<Rightarrow> bool" where
  "is_quote c = (c = CHR 0x22 \<or> c = CHR 0x27)"

text \<open>\<^verbatim>\<open>val.replace(/^["']|["']$/g, "")\<close>: a quote at the start is removed, and a quote at
  the end of what is left is removed.\<close>

definition strip_quotes :: "string \<Rightarrow> string" where
  "strip_quotes s =
     (let s1 = (case s of [] \<Rightarrow> [] | c # cs \<Rightarrow> if is_quote c then cs else s)
      in if s1 \<noteq> [] \<and> is_quote (last s1) then butlast s1 else s1)"

text \<open>\<^verbatim>\<open>val.replace(/^https?:\/\//, "")\<close>.\<close>

definition strip_protocol :: "string \<Rightarrow> string" where
  "strip_protocol s =
     (if prefix ''https://'' s then drop 8 s
      else if prefix ''http://'' s then drop 7 s
      else s)"

text \<open>\<^verbatim>\<open>val.replace(/\/$/, "")\<close>.\<close>

definition strip_trailing_slash :: "string \<Rightarrow> string" where
  "strip_trailing_slash s = (if s \<noteq> [] \<and> last s = CHR ''/'' then butlast s else s)"

definition valid_domain :: "string \<Rightarrow> bool" where
  "valid_domain val = (val \<noteq> [] \<and> str_includes val ''.'')"

definition clean_line :: "string \<Rightarrow> string" where
  "clean_line line = strip_trailing_slash (strip_protocol (strip_quotes (trim (first_column line))))"

text \<open>\<open>valid_domain\<close> is the test \<^verbatim>\<open>val && val.includes(".")\<close>. The loop of \<^verbatim>\<open>parseDomainsFromText\<close> over the lines, with the index \<open>i\<close> and the
  array \<open>domains\<close> it pushes to.\<close>

fun parse_loop :: "bool \<Rightarrow> nat \<Rightarrow> string list \<Rightarrow> string list \<Rightarrow> string list" where
  "parse_loop skipHeader i [] domains = domains"
| "parse_loop skipHeader i (l # ls) domains =
     (if i = 0 \<and> skipHeader then parse_loop skipHeader (Suc i) ls domains
      else (let val = clean_line l
            in if valid_domain val
               then parse_loop skipHeader (Suc i) ls (domains @ [val])
               else parse_loop skipHeader (Suc i) ls domains))"

text \<open>\<^verbatim>\<open>[...new Set(xs)]\<close>: the values in the order of their first insertion; \<open>seen\<close> is the
  set built so far.\<close>

fun js_set :: "'a list \<Rightarrow> 'a list \<Rightarrow> 'a list" where
  "js_set seen [] = seen"
| "js_set seen (x # xs) = js_set (if x \<in> set seen then seen else seen @ [x]) xs"

definition parseDomainsFromText :: "string \<Rightarrow> string list" where
  "parseDomainsFromText text =
     (let lines = split_lines text;
          firstLine = toLowerCase (case lines of [] \<Rightarrow> [] | l # _ \<Rightarrow> l);
          skipHeader = (str_includes firstLine ''subdomain'' \<or> str_includes firstLine ''domain'')
      in js_set [] (parse_loop skipHeader 0 lines []))"


section \<open>Catalogs\<close>

text \<open>
  \<^verbatim>\<open>FINGERPRINTS\<close> and \<^verbatim>\<open>PROVIDER_MAP\<close> are imported tables that the configuration
  editor rewrites. The scanner only iterates over \<^verbatim>\<open>Object.entries\<close> of them and looks a
  key up, so each is a parameter here: the list of its entries in iteration order.
  Both are object literals, so a property read by key also sees what every object
  inherits from \<^verbatim>\<open>Object.prototype\<close>.
\<close>

type_synonym fingerprints = "(string \<times> string list) list"
type_synonym provider_map = "(string \<times> string) list"

section \<open>Provider identification and fingerprint matching\<close>

fun identifyProvider_loop :: "string \<Rightarrow> provider_map \<Rightarrow> string" where
  "identifyProvider_loop lower [] = ''Unknown Provider''"
| "identifyProvider_loop lower ((domain, provider) # rest) =
     (if str_includes lower domain then provider else identifyProvider_loop lower rest)"

definition identifyProvider :: "provider_map \<Rightarrow> string \<Rightarrow> string" where
  "identifyProvider PROVIDER_MAP cnameTarget =
     identifyProvider_loop (toLowerCase cnameTarget) PROVIDER_MAP"

record fingerprint_result =
  isVulnerable :: bool
  matchedSignature :: string

text \<open>The inner loop over one entry's signatures: the first one the body contains.\<close>

definition first_signature :: "string \<Rightarrow> string list \<Rightarrow> string option" where
  "first_signature responseBody signatures = find (\<lambda>sig. str_includes responseBody sig) signatures"

text \<open>The first loop of \<^verbatim>\<open>checkFingerprint\<close>; \<open>None\<close> when it ends without returning.\<close>

fun scoped_pass :: "string \<Rightarrow> string \<Rightarrow> fingerprints \<Rightarrow> fingerprint_result option" where
  "scoped_pass lower responseBody [] = None"
| "scoped_pass lower responseBody ((providerDomain, signatures) # rest) =
     (if str_includes lower providerDomain
      then (case first_signature responseBody signatures of
              Some sig \<Rightarrow> Some \<lparr>isVulnerable = True, matchedSignature = sig\<rparr>
            | None \<Rightarrow> Some \<lparr>isVulnerable = False, matchedSignature = ''Service protected or active''\<rparr>)
      else scoped_pass lower responseBody rest)"

text \<open>The members every object literal inherits, and the text a template literal gives
  for each on the runtime of the scanner (Node): the source text of a built-in function,
  and for \<^verbatim>\<open>__proto__\<close> the prototype object itself.\<close>

definition native_function_text :: "string \<Rightarrow> string" where
  "native_function_text fname = ''function '' @ fname @ ''() { [native code] }''"

definition object_prototype_member :: "string \<Rightarrow> string option" where
  "object_prototype_member key =
     (if key = ''constructor'' then Some (native_function_text ''Object'')
      else if key \<in> set [''__defineGetter__'', ''__defineSetter__'', ''hasOwnProperty'',
                          ''__lookupGetter__'', ''__lookupSetter__'', ''isPrototypeOf'',
                          ''propertyIsEnumerable'', ''toString'', ''valueOf'', ''toLocaleString'']
      then Some (native_function_text key)
      else if key = ''__proto__'' then Some ''[object Object]''
      else None)"

text \<open>\<^verbatim>\<open>PROVIDER_MAP[providerDomain] || providerDomain\<close>, as it is printed in the template
  literal: an own entry is read first, and an empty name gives way to the key; without
  an own entry the read reaches an inherited member, which is never falsy; without
  either it is \<^verbatim>\<open>undefined\<close> and gives way to the key.\<close>

definition provider_or_domain :: "provider_map \<Rightarrow> string \<Rightarrow> string" where
  "provider_or_domain PROVIDER_MAP providerDomain =
     (case map_of PROVIDER_MAP providerDomain of
        Some provider \<Rightarrow> if provider = [] then providerDomain else provider
      | None \<Rightarrow>
          (case object_prototype_member providerDomain of
             Some inherited \<Rightarrow> inherited
           | None \<Rightarrow> providerDomain))"

text \<open>The second loop of \<^verbatim>\<open>checkFingerprint\<close>, with the final return.\<close>

fun fallback_pass :: "provider_map \<Rightarrow> string \<Rightarrow> fingerprints \<Rightarrow> fingerprint_result" where
  "fallback_pass PROVIDER_MAP responseBody [] =
     \<lparr>isVulnerable = False, matchedSignature = ''No known signature''\<rparr>"
| "fallback_pass PROVIDER_MAP responseBody ((providerDomain, signatures) # rest) =
     (case first_signature responseBody signatures of
        Some sig \<Rightarrow>
          \<lparr>isVulnerable = True,
           matchedSignature =
             sig @ '' (matched '' @ provider_or_domain PROVIDER_MAP providerDomain @ '')''\<rparr>
      | None \<Rightarrow> fallback_pass PROVIDER_MAP responseBody rest)"

definition checkFingerprint ::
  "fingerprints \<Rightarrow> provider_map \<Rightarrow> string \<Rightarrow> string \<Rightarrow> fingerprint_result" where
  "checkFingerprint FINGERPRINTS PROVIDER_MAP cnameTarget responseBody =
     (case scoped_pass (toLowerCase cnameTarget) responseBody FINGERPRINTS of
        Some r \<Rightarrow> r
      | None \<Rightarrow> fallback_pass PROVIDER_MAP responseBody FINGERPRINTS)"

section \<open>Risk classification\<close>

datatype dns_status = CNAME | A | NXDOMAIN

datatype risk_level = CRITICAL | HIGH | MEDIUM | INFO | LOW

text \<open>Both are strings in the source; the classifier compares them as strings.\<close>

fun dns_status_str :: "dns_status \<Rightarrow> string" where
  "dns_status_str CNAME = ''CNAME''"
| "dns_status_str A = ''A''"
| "dns_status_str NXDOMAIN = ''NXDOMAIN''"

fun risk_level_str :: "risk_level \<Rightarrow> string" where
  "risk_level_str CRITICAL = ''CRITICAL''"
| "risk_level_str HIGH = ''HIGH''"
| "risk_level_str MEDIUM = ''MEDIUM''"
| "risk_level_str INFO = ''INFO''"
| "risk_level_str LOW = ''LOW''"

definition cleanCname :: "string \<Rightarrow> string" where
  "cleanCname cnameTarget = strip_trailing_dot (toLowerCase cnameTarget)"

definition google_main :: "string list" where
  "google_main = [''google.com'', ''www.google.com'', ''maps.google.com'']"

definition isThirdParty :: "string \<Rightarrow> bool" where
  "isThirdParty provider = (provider \<noteq> ''Unknown Provider'')"

definition isBroken :: "int \<Rightarrow> bool" where
  "isBroken httpStatus = (httpStatus = 0 \<or> httpStatus \<ge> 400)"

definition hasFingerprint :: "string \<Rightarrow> bool" where
  "hasFingerprint fingerprint =
     (fingerprint \<notin> set ['''', ''No known signature'', ''Service protected or active''])"

definition determineSecurityIssue :: "string \<Rightarrow> int \<Rightarrow> string \<Rightarrow> string \<Rightarrow> string" where
  "determineSecurityIssue dnsStatus httpStatus fingerprint riskLevel =
     (let hasPointer = (dnsStatus = ''CNAME'' \<or> dnsStatus = ''A'');
          isVulnerableFp = hasFingerprint fingerprint
      in if riskLevel = ''CRITICAL'' then ''Subdomain Takeover''
         else if riskLevel = ''HIGH'' then ''Dangling DNS Record''
         else if riskLevel = ''MEDIUM'' then ''DNS Hygiene Misconfiguration''
         else if hasPointer \<and> httpStatus = 200 \<and> \<not> isVulnerableFp then ''None - Active Service''
         else if dnsStatus = ''NXDOMAIN'' then ''None - NXDOMAIN''
         else if hasPointer \<and> (httpStatus \<ge> 400 \<or> httpStatus = 0) then ''Potential Misconfiguration''
         else ''Potential Misconfiguration'')"

record risk_result =
  riskLevel :: risk_level
  riskLabel :: string

definition classifyRisk ::
  "string \<Rightarrow> int \<Rightarrow> string \<Rightarrow> string \<Rightarrow> string \<Rightarrow> string \<Rightarrow> risk_result" where
  "classifyRisk dnsStatus httpStatus fingerprint httpError provider cnameTarget =
     (if cleanCname cnameTarget \<in> set google_main then
        \<lparr>riskLevel = LOW, riskLabel = ''Pointed to Google Main (Safe/Not Exploitable)''\<rparr>
      else if provider = ''Unknown Provider'' \<and> str_includes (cleanCname cnameTarget) ''google.com'' then
        \<lparr>riskLevel = LOW, riskLabel = ''Pointed to Generic Google (Safe)''\<rparr>
      else if dnsStatus = ''CNAME'' \<and> isBroken httpStatus \<and> \<not> isThirdParty provider then
        \<lparr>riskLevel = MEDIUM,
         riskLabel = ''DNS Hygiene: Self-Pointing or Misconfigured CNAME (Low Likelihood, Some Potential)''\<rparr>
      else if dnsStatus = ''A'' \<and> isBroken httpStatus \<and> \<not> isThirdParty provider then
        \<lparr>riskLevel = MEDIUM,
         riskLabel = ''DNS Hygiene: Misconfigured/Dead A Record (Low Likelihood, Some Potential)''\<rparr>
      else if isThirdParty provider \<and> isBroken httpStatus \<and> hasFingerprint fingerprint then
        \<lparr>riskLevel = CRITICAL, riskLabel = ''Confirmed Subdomain Takeover (All 3 Conditions Met)''\<rparr>
      else if isThirdParty provider \<and> httpStatus = 200 \<and> hasFingerprint fingerprint then
        \<lparr>riskLevel = CRITICAL,
         riskLabel = ''Subdomain Takeover (Service Responding 200 with Fingerprint)''\<rparr>
      else if isThirdParty provider \<and> isBroken httpStatus then
        \<lparr>riskLevel = HIGH, riskLabel = ''Dangling Pointer to 3rd Party (No Fingerprint)''\<rparr>
      else if \<not> isThirdParty provider \<and> hasFingerprint fingerprint \<and> isBroken httpStatus then
        \<lparr>riskLevel = HIGH,
         riskLabel = ''Suspicious Content (Fingerprint Found but Provider Unknown)''\<rparr>
      else if dnsStatus = ''NXDOMAIN'' then
        \<lparr>riskLevel = LOW, riskLabel = ''No DNS Record - Not Exploitable''\<rparr>
      else if (dnsStatus = ''CNAME'' \<or> dnsStatus = ''A'') \<and> httpStatus = 200 then
        \<lparr>riskLevel = INFO, riskLabel = ''Active Subdomain - Verify Ownership''\<rparr>
      else \<lparr>riskLevel = INFO, riskLabel = ''Orphaned or Misconfigured Subdomain''\<rparr>)"

text \<open>The filter list of the evidence table.\<close>

definition ISSUE_TYPES :: "string list" where
  "ISSUE_TYPES =
     [''Subdomain Takeover'', ''Dangling DNS Record'', ''DNS Hygiene Misconfiguration'',
      ''Potential Misconfiguration'', ''None - Active Service'', ''None - NXDOMAIN'']"

section \<open>The network\<close>

text \<open>
  What a rejected promise carries: an \<^verbatim>\<open>Error\<close> object with its name and message, or any
  other value. Every awaited call is taken to settle.
\<close>

datatype thrown = Error string string | NonError

record dns_answer =
  atype :: int
  adata :: string

text \<open>The JSON body of a resolver reply: the integer \<^verbatim>\<open>Status\<close> and the optional
  \<^verbatim>\<open>Answer\<close> array with the fields \<^verbatim>\<open>type\<close> and \<^verbatim>\<open>data\<close> of each record. A body of
  another shape, on which the code throws, is among what is thrown below.\<close>

record doh_response =
  Status :: int
  Answer :: "dns_answer list option"

text \<open>\<^verbatim>\<open>fetch\<close> of the resolver URL for a name and a record type, followed by
  \<^verbatim>\<open>res.json()\<close>: the parsed reply, or what was thrown (network error, timeout, a body
  that is not the JSON expected).\<close>

type_synonym doh = "string \<Rightarrow> string \<Rightarrow> thrown + doh_response"

text \<open>One request of the probe: \<^verbatim>\<open>fetch\<close> rejects; or it resolves with a status and
  \<^verbatim>\<open>resp.text()\<close> rejects; or both resolve, giving the status, the text and the
  \<^verbatim>\<open>server\<close> header.\<close>

datatype attempt =
    FetchThrew thrown
  | BodyThrew int thrown
  | Responded int string "string option"

type_synonym http = "string \<Rightarrow> attempt"

section \<open>Name resolution\<close>

record dns_result =
  dnsStatus :: dns_status
  cnameTarget :: string
  dnsLookupText :: string

text \<open>The outer \<^verbatim>\<open>catch\<close> of \<^verbatim>\<open>dnsLookup\<close>.\<close>

definition dns_catch :: "thrown \<Rightarrow> dns_result" where
  "dns_catch err =
     \<lparr>dnsStatus = NXDOMAIN, cnameTarget = [],
      dnsLookupText = ''DNS Error: '' @ (case err of Error n message \<Rightarrow> message | NonError \<Rightarrow> ''Unknown'')\<rparr>"

text \<open>\<^verbatim>\<open>Answer.find(a => a.type === 5)\<close>.\<close>

definition find_cname :: "dns_answer list \<Rightarrow> dns_answer option" where
  "find_cname answers = find (\<lambda>a. atype a = 5) answers"

text \<open>The part of \<^verbatim>\<open>dnsLookup\<close> under \<^verbatim>\<open>if (aData.Answer)\<close>; \<open>None\<close> when it falls through.\<close>

definition answer_A :: "dns_answer list \<Rightarrow> dns_result option" where
  "answer_A answers =
     (let aRecords = filter (\<lambda>a. atype a = 1) answers
      in case aRecords of
           a # _ \<Rightarrow>
             Some \<lparr>dnsStatus = A, cnameTarget = adata a,
                   dnsLookupText = ''A -> '' @ join '', '' (map adata aRecords)\<rparr>
         | [] \<Rightarrow>
             (case find_cname answers of
                Some cnameInA \<Rightarrow>
                  (let cname = strip_trailing_dot (adata cnameInA)
                   in Some \<lparr>dnsStatus = CNAME, cnameTarget = cname,
                            dnsLookupText = ''CNAME -> '' @ cname\<rparr>)
              | None \<Rightarrow> None))"

text \<open>The part of \<^verbatim>\<open>dnsLookup\<close> from the comment \<^verbatim>\<open>// Try A record\<close> on.\<close>

definition try_A_record :: "doh \<Rightarrow> string \<Rightarrow> dns_result" where
  "try_A_record fetch_doh subdomain =
     (case fetch_doh subdomain ''A'' of
        Inl err \<Rightarrow> dns_catch err
      | Inr aData \<Rightarrow>
          if Status aData = 3 then
            \<lparr>dnsStatus = NXDOMAIN, cnameTarget = [], dnsLookupText = ''NXDOMAIN''\<rparr>
          else
            (case (case Answer aData of None \<Rightarrow> None | Some answers \<Rightarrow> answer_A answers) of
               Some r \<Rightarrow> r
             | None \<Rightarrow>
                 if Status aData = 0 \<and> Answer aData = None then
                   \<lparr>dnsStatus = NXDOMAIN, cnameTarget = [], dnsLookupText = ''No DNS Answer''\<rparr>
                 else
                   \<lparr>dnsStatus = NXDOMAIN, cnameTarget = [],
                    dnsLookupText = ''DNS Status: '' @ show_int (Status aData)\<rparr>))"

definition target_marker :: string where
  "target_marker = '' [CNAME target NXDOMAIN]''"

definition dnsLookup :: "doh \<Rightarrow> string \<Rightarrow> dns_result" where
  "dnsLookup fetch_doh subdomain =
     (case fetch_doh subdomain ''CNAME'' of
        Inl err \<Rightarrow> dns_catch err
      | Inr data \<Rightarrow>
          (case (case Answer data of None \<Rightarrow> None | Some answers \<Rightarrow> find_cname answers) of
             Some cnameRecord \<Rightarrow>
               (let cname = strip_trailing_dot (adata cnameRecord);
                    cnameResolves =
                      (case fetch_doh cname ''A'' of
                         Inl err \<Rightarrow> False
                       | Inr aData \<Rightarrow> Status aData \<noteq> 3);
                    note = (if cnameResolves then [] else target_marker)
                in \<lparr>dnsStatus = CNAME, cnameTarget = cname,
                    dnsLookupText = ''CNAME -> '' @ cname @ note\<rparr>)
           | None \<Rightarrow> try_A_record fetch_doh subdomain))"

section \<open>Availability probe\<close>

record probe_result =
  status :: int
  body :: string
  error :: string
  serverHeader :: string

text \<open>The \<^verbatim>\<open>catch\<close> block of one attempt: the result as it leaves the block, and whether
  the block returns it.\<close>

definition probe_catch :: "string \<Rightarrow> thrown \<Rightarrow> probe_result \<Rightarrow> probe_result \<times> bool" where
  "probe_catch scheme err result =
     (case err of
        Error name message \<Rightarrow>
          if name = ''AbortError'' then (result\<lparr>error := ''Timeout''\<rparr>, True)
          else (result\<lparr>error := (if scheme = ''http'' then ''Connection Failed'' else [])\<rparr>,
                scheme = ''http'')
      | NonError \<Rightarrow> (result, scheme = ''http''))"

text \<open>The loop over the schemes; the empty list is the code after the loop.\<close>

fun httpProbe_loop :: "http \<Rightarrow> string \<Rightarrow> string list \<Rightarrow> probe_result \<Rightarrow> probe_result" where
  "httpProbe_loop fetch subdomain [] result =
     (if error result = [] then result\<lparr>error := ''Connection Failed''\<rparr> else result)"
| "httpProbe_loop fetch subdomain (scheme # schemes) result =
     (case fetch (scheme @ ''://'' @ subdomain) of
        Responded st text server \<Rightarrow>
          result\<lparr>status := st, body := take 50000 text,
                 serverHeader := (case server of None \<Rightarrow> [] | Some h \<Rightarrow> h), error := []\<rparr>
      | BodyThrew st err \<Rightarrow>
          (case probe_catch scheme err (result\<lparr>status := st\<rparr>) of
             (result', returned) \<Rightarrow>
               if returned then result' else httpProbe_loop fetch subdomain schemes result')
      | FetchThrew err \<Rightarrow>
          (case probe_catch scheme err result of
             (result', returned) \<Rightarrow>
               if returned then result' else httpProbe_loop fetch subdomain schemes result'))"

definition httpProbe :: "http \<Rightarrow> string \<Rightarrow> probe_result" where
  "httpProbe fetch subdomain =
     httpProbe_loop fetch subdomain [''https'', ''http'']
       \<lparr>status = 0, body = [], error = [], serverHeader = []\<rparr>"

section \<open>The scan of one hostname\<close>

record ScanResult =
  subdomain :: string
  cname :: string
  dnsStatus :: dns_status
  httpStatus :: string
  provider :: string
  signature :: string
  dnsLookupResult :: string
  securityIssue :: string
  riskLevel :: risk_level
  riskLabel :: string
  serverHeader :: string
  scannedAt :: string

text \<open>\<open>host\<close> is the parameter \<^verbatim>\<open>subdomain\<close>, and \<open>now\<close> the value of
  \<^verbatim>\<open>new Date().toISOString()\<close>.\<close>

definition scanSubdomain ::
  "fingerprints \<Rightarrow> provider_map \<Rightarrow> doh \<Rightarrow> http \<Rightarrow> string \<Rightarrow> string \<Rightarrow> ScanResult" where
  "scanSubdomain FINGERPRINTS PROVIDER_MAP fetch_doh fetch now host =
     (let lookup = dnsLookup fetch_doh host;
          effectiveCname = (if cnameTarget lookup \<noteq> [] then cnameTarget lookup else host);
          probe = httpProbe fetch host;
          httpStatusNum = status probe;
          provider = identifyProvider PROVIDER_MAP effectiveCname;
          fp = checkFingerprint FINGERPRINTS PROVIDER_MAP effectiveCname (body probe);
          fingerprint = matchedSignature fp;
          risk = classifyRisk (dns_status_str (dns_result.dnsStatus lookup)) httpStatusNum
                   fingerprint (error probe) provider effectiveCname;
          securityIssue = determineSecurityIssue (dns_status_str (dns_result.dnsStatus lookup))
                   httpStatusNum fingerprint (risk_level_str (risk_result.riskLevel risk));
          signature =
            (if isVulnerable fp \<and> fingerprint \<noteq> [] then provider @ '' - '' @ fingerprint
             else if error probe \<noteq> [] \<and> httpStatusNum = 0 then provider @ '' - '' @ error probe
             else if httpStatusNum > 0 then provider @ '' - HTTP '' @ show_int httpStatusNum
             else provider @ '' - No Response'');
          httpDisplay =
            (if httpStatusNum = 0
             then ''0 ('' @ (if error probe \<noteq> [] then error probe else ''No Response'') @ '')''
             else show_int httpStatusNum)
      in \<lparr>subdomain = host,
          cname = effectiveCname,
          dnsStatus = dns_result.dnsStatus lookup,
          httpStatus = httpDisplay,
          provider = provider,
          signature = signature,
          dnsLookupResult = dnsLookupText lookup,
          securityIssue = securityIssue,
          riskLevel = risk_result.riskLevel risk,
          riskLabel = risk_result.riskLabel risk,
          serverHeader = probe_result.serverHeader probe,
          scannedAt = now\<rparr>)"

section \<open>Sample inputs\<close>

text \<open>Two small catalogs, and replies of the resolver and of the probed servers, used to
  evaluate the scanner on concrete inputs.\<close>

definition sample_fingerprints :: fingerprints where
  "sample_fingerprints =
     [(''herokuapp.com'', [''No such app'']),
      (''s3.amazonaws.com'', [''NoSuchBucket'', ''The specified bucket does not exist''])]"

definition sample_providers :: provider_map where
  "sample_providers = [(''herokuapp.com'', ''Heroku''), (''s3.amazonaws.com'', ''AWS S3'')]"


definition s3_error_page :: string where
  "s3_error_page = ''<Error><Code>NoSuchBucket</Code></Error>''"

definition heroku_error_page :: string where
  "heroku_error_page = ''<h1>No such app</h1>''"

text \<open>A catalog whose only key names an inherited member of every object, and an empty
  provider catalog.\<close>

definition constructor_fingerprints :: fingerprints where
  "constructor_fingerprints = [(''constructor'', [''NoSuchBucket''])]"

text \<open>A resolver for which no name exists.\<close>

definition doh_nxdomain :: doh where
  "doh_nxdomain qname qtype = Inr \<lparr>Status = 3, Answer = None\<rparr>"

text \<open>A resolver that knows one alias, \<^verbatim>\<open>shop.example.com\<close>, whose target no longer
  exists.\<close>

definition doh_dangling :: doh where
  "doh_dangling qname qtype =
     (if qname = ''shop.example.com'' \<and> qtype = ''CNAME''
      then Inr \<lparr>Status = 0, Answer = Some [\<lparr>atype = 5, adata = ''old-shop.herokuapp.com.''\<rparr>]\<rparr>
      else Inr \<lparr>Status = 3, Answer = None\<rparr>)"

text \<open>The same alias, with the check of its target timing out.\<close>

definition doh_target_timeout :: doh where
  "doh_target_timeout qname qtype =
     (if qname = ''shop.example.com'' \<and> qtype = ''CNAME''
      then Inr \<lparr>Status = 0, Answer = Some [\<lparr>atype = 5, adata = ''old-shop.herokuapp.com.''\<rparr>]\<rparr>
      else Inl (Error ''TimeoutError'' ''The operation was aborted due to timeout''))"

text \<open>No server accepts a connection.\<close>

definition fetch_refused :: http where
  "fetch_refused url = FetchThrew (Error ''TypeError'' ''fetch failed'')"

text \<open>The https server answers 200 and breaks the connection while the body is read; no
  server listens on http.\<close>

definition fetch_broken_body :: http where
  "fetch_broken_body url =
     (if url = ''https://shop.example.com'' then BodyThrew 200 (Error ''TypeError'' ''terminated'')
      else FetchThrew (Error ''TypeError'' ''fetch failed''))"

text \<open>A time stamp.\<close>

definition sample_now :: string where
  "sample_now = ''2026-01-01T00:00:00.000Z''"


section \<open>Properties of the string functions\<close>

lemma includes_sublist: "str_includes s sub = sublist sub s"
  by (induction s) (auto simp: sublist_Cons_right)

lemma includes_append: "str_includes s sub = (\<exists>p q. s = p @ sub @ q)"
  by (simp add: includes_sublist sublist_def)

section \<open>Properties of input parsing\<close>

lemma js_set_distinct: "distinct seen \<Longrightarrow> distinct (js_set seen xs)"
  by (induction xs arbitrary: seen) auto

lemma js_set_set: "set (js_set seen xs) = set seen \<union> set xs"
  by (induction xs arbitrary: seen) auto

text \<open>The loop collects the cleaned lines that pass the test, in order; only the line at
  index 0 can be skipped.\<close>

lemma parse_loop_Suc:
  "parse_loop skipHeader (Suc i) ls domains = domains @ filter valid_domain (map clean_line ls)"
  by (induction ls arbitrary: i domains) (simp_all add: Let_def)

lemma parse_loop_0:
  "parse_loop skipHeader 0 ls domains =
     domains @ filter valid_domain (map clean_line (if skipHeader then tl ls else ls))"
  by (cases ls) (simp_all add: Let_def parse_loop_Suc)

text \<open>Every parsed hostname is non-empty and contains a dot.\<close>

lemma parseDomainsFromText_entries:
  "d \<in> set (parseDomainsFromText text) \<Longrightarrow> d \<noteq> [] \<and> str_includes d ''.''"
  by (auto simp add: parseDomainsFromText_def Let_def js_set_set parse_loop_0 valid_domain_def)

text \<open>
  Claim C8. Parsing the four lines \<^verbatim>\<open>Subdomain\<close>, \<^verbatim>\<open>https://foo.example.com/\<close>,
  \<^verbatim>\<open>"bar.example.com"\<close> (in double quotes) and \<^verbatim>\<open>bar.example.com\<close>, separated by line
  feeds, yields exactly \<^verbatim>\<open>foo.example.com\<close> and \<^verbatim>\<open>bar.example.com\<close>, in this order: the
  header line is skipped, the protocol and the trailing slash are stripped, the quotes
  are stripped, and the duplicate is removed.
\<close>

theorem parseDomainsFromText_example:
  "parseDomainsFromText
     (''Subdomain'' @ [CHR 0x0A] @ ''https://foo.example.com/'' @ [CHR 0x0A] @
      [CHR 0x22] @ ''bar.example.com'' @ [CHR 0x22] @ [CHR 0x0A] @ ''bar.example.com'')
   = [''foo.example.com'', ''bar.example.com'']"
  by code_simp

text \<open>
  Claim C5, as stated: no two entries of the parsed list are equal when letter case is
  ignored. The set that removes duplicates compares the strings as they are, so two
  lines that differ only in case both stay: the list parsed from the lines
  \<^verbatim>\<open>A.example.com\<close> and \<^verbatim>\<open>a.example.com\<close> has two entries with the same lower-case form.
\<close>

theorem parseDomainsFromText_case_counterexample:
  "\<not> distinct (map toLowerCase
       (parseDomainsFromText (''A.example.com'' @ [CHR 0x0A] @ ''a.example.com'')))"
  by code_simp

text \<open>
  Claim C5, amended: for every input text, no two entries of the parsed list are equal as
  strings (the comparison is exact, case included).
\<close>

theorem parseDomainsFromText_distinct: "distinct (parseDomainsFromText text)"
  by (simp add: parseDomainsFromText_def Let_def js_set_distinct)

section \<open>Properties of the classifier\<close>

lemma ISSUE_TYPES_six: "distinct ISSUE_TYPES \<and> length ISSUE_TYPES = 6"
  by (simp add: ISSUE_TYPES_def)

text \<open>
  Claim C10. For every dnsStatus, HTTP status, fingerprint and risk level, the security
  issue derived from them is one of the six strings Subdomain Takeover, Dangling DNS
  Record, DNS Hygiene Misconfiguration, None - Active Service, None - NXDOMAIN and
  Potential Misconfiguration, which are the six issue types of the evidence table.
\<close>

theorem determineSecurityIssue_six_values:
  "determineSecurityIssue d st fp level \<in>
     {''Subdomain Takeover'', ''Dangling DNS Record'', ''DNS Hygiene Misconfiguration'',
      ''None - Active Service'', ''None - NXDOMAIN'', ''Potential Misconfiguration''}
   \<and> determineSecurityIssue d st fp level \<in> set ISSUE_TYPES"
  by (simp add: determineSecurityIssue_def ISSUE_TYPES_def Let_def)

text \<open>
  Claim C2. When the cleaned resolved name is not one of the three Google names, the
  provider is recognized, the HTTP status is 0 or at least 400, and the matched
  signature is neither empty nor one of the two sentinels, the classifier returns
  CRITICAL with the label of a confirmed takeover, and the security issue derived from
  that level is Subdomain Takeover. (With a recognized provider the second Google rule
  cannot apply.)
\<close>

theorem classifyRisk_confirmed_takeover:
  assumes "cleanCname target \<notin> set google_main"
    and "prov \<noteq> ''Unknown Provider''"
    and "st = 0 \<or> st \<ge> 400"
    and "fp \<noteq> []" and "fp \<noteq> ''No known signature''"
    and "fp \<noteq> ''Service protected or active''"
  shows "classifyRisk d st fp herr prov target =
           \<lparr>risk_result.riskLevel = CRITICAL,
            risk_result.riskLabel = ''Confirmed Subdomain Takeover (All 3 Conditions Met)''\<rparr>
         \<and> determineSecurityIssue d st fp
             (risk_level_str (risk_result.riskLevel (classifyRisk d st fp herr prov target)))
           = ''Subdomain Takeover''"
  using assms
  by (simp add: classifyRisk_def determineSecurityIssue_def isThirdParty_def isBroken_def
      hasFingerprint_def Let_def)

text \<open>Claim C2 at an alias of a Heroku application that answers 404 with Heroku's page.\<close>

theorem classifyRisk_confirmed_takeover_witness:
  "cleanCname ''old-shop.herokuapp.com'' \<notin> set google_main
   \<and> classifyRisk ''CNAME'' 404 ''No such app'' [] ''Heroku'' ''old-shop.herokuapp.com'' =
       \<lparr>risk_result.riskLevel = CRITICAL,
        risk_result.riskLabel = ''Confirmed Subdomain Takeover (All 3 Conditions Met)''\<rparr>
   \<and> determineSecurityIssue ''CNAME'' 404 ''No such app''
       (risk_level_str (risk_result.riskLevel
          (classifyRisk ''CNAME'' 404 ''No such app'' [] ''Heroku'' ''old-shop.herokuapp.com'')))
     = ''Subdomain Takeover''"
proof -
  have h: "cleanCname ''old-shop.herokuapp.com'' \<notin> set google_main"
    by code_simp
  show ?thesis
    by (rule conjI [OF h], rule classifyRisk_confirmed_takeover [OF h]) simp_all
qed

section \<open>Properties of the fingerprint matcher\<close>

lemma first_signature_None:
  "(first_signature resp sigs = None) = (\<forall>sig \<in> set sigs. \<not> str_includes resp sig)"
  by (auto simp add: first_signature_def find_None_iff)


text \<open>The scoped pass answers from the first entry whose key the hostname contains.\<close>

lemma scoped_pass_find:
  "find (\<lambda>(k, sigs). str_includes lower k) fps = Some (k, sigs) \<Longrightarrow>
   scoped_pass lower resp fps =
     Some (case first_signature resp sigs of
             Some sig \<Rightarrow> \<lparr>isVulnerable = True, matchedSignature = sig\<rparr>
           | None \<Rightarrow> \<lparr>isVulnerable = False, matchedSignature = ''Service protected or active''\<rparr>)"
proof (induction fps)
  case Nil
  then show ?case by simp
next
  case (Cons e fps)
  obtain k0 sigs0 where e: "e = (k0, sigs0)" by (cases e)
  show ?case
  proof (cases "str_includes lower k0")
    case True
    with Cons.prems e have "k = k0" "sigs = sigs0" by simp_all
    with True e show ?thesis by (simp split: option.splits)
  next
    case False
    with Cons.prems e have "find (\<lambda>(k, sigs). str_includes lower k) fps = Some (k, sigs)"
      by simp
    from Cons.IH [OF this] False e show ?thesis by simp
  qed
qed




text \<open>When the hostname contains exactly one key of the catalog, the entry of that key is
  the first one found.\<close>

lemma find_single_key:
  "(k, sigs) \<in> set fps \<Longrightarrow> distinct (map fst fps) \<Longrightarrow> str_includes lower k \<Longrightarrow>
   \<forall>(k', sigs') \<in> set fps. str_includes lower k' \<longrightarrow> k' = k \<Longrightarrow>
   find (\<lambda>(k, sigs). str_includes lower k) fps = Some (k, sigs)"
proof (induction fps)
  case Nil
  then show ?case by simp
next
  case (Cons e fps)
  obtain k0 sigs0 where e: "e = (k0, sigs0)" by (cases e)
  show ?case
  proof (cases "str_includes lower k0")
    case True
    with Cons.prems(4) e have "k0 = k" by simp
    moreover from this Cons.prems(1,2) e have "sigs0 = sigs"
      by (auto simp: image_iff)
    ultimately show ?thesis using True e by simp
  next
    case False
    with Cons.prems e have "(k, sigs) \<in> set fps" by auto
    moreover from Cons.prems have "distinct (map fst fps)" by simp
    moreover from Cons.prems have "\<forall>(k', sigs') \<in> set fps. str_includes lower k' \<longrightarrow> k' = k"
      by simp
    ultimately have "find (\<lambda>(k, sigs). str_includes lower k) fps = Some (k, sigs)"
      using Cons.IH Cons.prems(3) by blast
    with False e show ?thesis by simp
  qed
qed

text \<open>
  Claim C3, as stated: whenever the hostname contains some catalog key and the body
  contains none of that key's signatures, the matcher returns isVulnerable = false. The
  scoped pass answers from the first key, in catalog order, that the hostname contains:
  a hostname under \<^verbatim>\<open>s3.amazonaws.com\<close> that also contains \<^verbatim>\<open>herokuapp.com\<close>, with a
  body that holds Heroku's signature and none of the S3 entry, is reported vulnerable.
\<close>

theorem checkFingerprint_scoped_counterexample:
  "str_includes (toLowerCase ''assets.herokuapp.com.s3.amazonaws.com'') ''s3.amazonaws.com''
   \<and> map_of sample_fingerprints ''s3.amazonaws.com'' =
       Some [''NoSuchBucket'', ''The specified bucket does not exist'']
   \<and> \<not> str_includes heroku_error_page ''NoSuchBucket''
   \<and> \<not> str_includes heroku_error_page ''The specified bucket does not exist''
   \<and> checkFingerprint sample_fingerprints sample_providers
         ''assets.herokuapp.com.s3.amazonaws.com'' heroku_error_page =
       \<lparr>isVulnerable = True, matchedSignature = ''No such app''\<rparr>"
  by code_simp

text \<open>
  Claim C3, amended. Let the lower-cased target hostname contain some key of the
  fingerprint catalog, and let \<open>(k, sigs)\<close> be the first such entry in catalog order (the
  entry the scoped pass selects; by \<open>find_single_key\<close> the entry of the key when a single
  key matches). If the response body contains none of the signatures of \<open>k\<close>, the matcher
  returns isVulnerable = false with the sentinel Service protected or active, whatever
  signatures of other entries the body contains.
\<close>

theorem checkFingerprint_scoped_no_match:
  assumes "find (\<lambda>(k, sigs). str_includes (toLowerCase target) k) fps = Some (k, sigs)"
    and "\<forall>sig \<in> set sigs. \<not> str_includes resp sig"
  shows "checkFingerprint fps pm target resp =
           \<lparr>isVulnerable = False, matchedSignature = ''Service protected or active''\<rparr>"
proof -
  from assms(2) have "first_signature resp sigs = None"
    by (simp only: first_signature_None)
  with scoped_pass_find [OF assms(1), of resp] show ?thesis
    by (simp add: checkFingerprint_def)
qed

text \<open>Claim C3, amended, at a Heroku hostname whose response body is the error page of S3: the body
  contains a signature of the S3 entry, and the matcher still reports no vulnerability.\<close>

theorem checkFingerprint_scoped_no_match_witness:
  "str_includes s3_error_page ''NoSuchBucket''
   \<and> checkFingerprint sample_fingerprints sample_providers ''old-shop.herokuapp.com''
        s3_error_page =
       \<lparr>isVulnerable = False, matchedSignature = ''Service protected or active''\<rparr>"
proof -
  have h1: "find (\<lambda>(k, sigs). str_includes (toLowerCase ''old-shop.herokuapp.com'') k)
              sample_fingerprints = Some (''herokuapp.com'', [''No such app''])"
    by code_simp
  have h2: "\<forall>sig \<in> set [''No such app'']. \<not> str_includes s3_error_page sig"
    by code_simp
  have h3: "str_includes s3_error_page ''NoSuchBucket''"
    by code_simp
  show ?thesis
    by (intro conjI h3 checkFingerprint_scoped_no_match [OF h1 h2])
qed

text \<open>A fingerprint key that names an inherited member, with no entry of its own in the
  provider catalog, is annotated by the text of that member.\<close>

lemma checkFingerprint_inherited_member:
  "checkFingerprint constructor_fingerprints [] ''files.example.net'' s3_error_page =
     \<lparr>isVulnerable = True,
      matchedSignature = ''NoSuchBucket (matched function Object() { [native code] })''\<rparr>"
  by code_simp




section \<open>Properties of name resolution\<close>

text \<open>Every way \<^verbatim>\<open>dnsLookup\<close> reports NXDOMAIN leaves the target empty.\<close>

lemma dnsLookup_NXDOMAIN_target:
  "dns_result.dnsStatus (dnsLookup fetch_doh host) = NXDOMAIN \<Longrightarrow>
   cnameTarget (dnsLookup fetch_doh host) = []"
  by (auto simp: dnsLookup_def try_A_record_def answer_A_def dns_catch_def Let_def
      split: sum.splits option.splits list.splits if_splits)

text \<open>
  Claim C6, as stated: the marker is appended exactly when the secondary query reports
  no such domain. The \<^verbatim>\<open>catch\<close> around the secondary query also clears
  \<^verbatim>\<open>cnameResolves\<close>: when that query times out, nothing is reported about the target,
  and the marker is appended all the same.
\<close>

theorem dnsLookup_marker_counterexample:
  "doh_target_timeout ''old-shop.herokuapp.com'' ''A'' =
     Inl (Error ''TimeoutError'' ''The operation was aborted due to timeout'')
   \<and> dnsLookupText (dnsLookup doh_target_timeout ''shop.example.com'') =
        ''CNAME -> old-shop.herokuapp.com [CNAME target NXDOMAIN]''"
  by code_simp

text \<open>
  Claim C6, amended. When the reply to the primary query has a CNAME answer, \<open>r\<close> being the
  first one, resolve returns dnsStatus = CNAME with the target \<open>r\<close> names, one trailing
  dot stripped, whatever the secondary query gives; and the marker
  \<^verbatim>\<open>[CNAME target NXDOMAIN]\<close> is appended to the trail text exactly when the secondary
  A-record query for that target reports no such domain (status 3) or fails (network
  error, timeout, unreadable reply).
\<close>

theorem dnsLookup_cname_marker:
  assumes "fetch_doh host ''CNAME'' = Inr reply"
    and "Answer reply = Some answers"
    and "find_cname answers = Some r"
  shows "dns_result.dnsStatus (dnsLookup fetch_doh host) = CNAME
       \<and> cnameTarget (dnsLookup fetch_doh host) = strip_trailing_dot (adata r)
       \<and> dnsLookupText (dnsLookup fetch_doh host) =
           ''CNAME -> '' @ strip_trailing_dot (adata r) @
             (if (case fetch_doh (strip_trailing_dot (adata r)) ''A'' of
                    Inl err \<Rightarrow> True
                  | Inr aData \<Rightarrow> Status aData = 3)
              then '' [CNAME target NXDOMAIN]'' else [])"
  using assms
  by (simp add: dnsLookup_def Let_def target_marker_def split: sum.splits)

text \<open>Claim C6, amended, at an alias whose target the resolver reports as not existing.\<close>

theorem dnsLookup_cname_marker_witness:
  "dns_result.dnsStatus (dnsLookup doh_dangling ''shop.example.com'') = CNAME
   \<and> cnameTarget (dnsLookup doh_dangling ''shop.example.com'') = ''old-shop.herokuapp.com''
   \<and> dnsLookupText (dnsLookup doh_dangling ''shop.example.com'') =
        ''CNAME -> old-shop.herokuapp.com [CNAME target NXDOMAIN]''"
proof -
  have h1: "doh_dangling ''shop.example.com'' ''CNAME'' =
      Inr \<lparr>Status = 0, Answer = Some [\<lparr>atype = 5, adata = ''old-shop.herokuapp.com.''\<rparr>]\<rparr>"
    by (simp add: doh_dangling_def)
  have h2: "Answer \<lparr>Status = 0, Answer = Some [\<lparr>atype = 5, adata = ''old-shop.herokuapp.com.''\<rparr>]\<rparr>
      = Some [\<lparr>atype = 5, adata = ''old-shop.herokuapp.com.''\<rparr>]"
    by simp
  have h3: "find_cname [\<lparr>atype = 5, adata = ''old-shop.herokuapp.com.''\<rparr>]
      = Some \<lparr>atype = 5, adata = ''old-shop.herokuapp.com.''\<rparr>"
    by (simp add: find_cname_def)
  show ?thesis
    using dnsLookup_cname_marker [where fetch_doh = doh_dangling
        and host = "''shop.example.com''", OF h1 h2 h3]
    by (simp add: strip_trailing_dot_def doh_dangling_def)
qed

section \<open>Properties of the availability probe\<close>

text \<open>The probe is a total function: it returns a result for every behaviour of the two
  requests. When no request fails after its status line has arrived, the outcomes are
  these.\<close>

lemma httpProbe_https_responded:
  "fetch (''https://'' @ h) = Responded st t srv \<Longrightarrow>
   httpProbe fetch h =
     \<lparr>status = st, body = take 50000 t, error = [],
      probe_result.serverHeader = (case srv of None \<Rightarrow> [] | Some x \<Rightarrow> x)\<rparr>"
  by (simp add: httpProbe_def)

lemma httpProbe_https_timeout:
  "fetch (''https://'' @ h) = FetchThrew (Error ''AbortError'' m) \<Longrightarrow>
   httpProbe fetch h =
     \<lparr>status = 0, body = [], error = ''Timeout'', probe_result.serverHeader = []\<rparr>"
  by (simp add: httpProbe_def probe_catch_def)

lemma httpProbe_http_responded:
  "fetch (''https://'' @ h) = FetchThrew (Error n m) \<Longrightarrow> n \<noteq> ''AbortError'' \<Longrightarrow>
   fetch (''http://'' @ h) = Responded st t srv \<Longrightarrow>
   httpProbe fetch h =
     \<lparr>status = st, body = take 50000 t, error = [],
      probe_result.serverHeader = (case srv of None \<Rightarrow> [] | Some x \<Rightarrow> x)\<rparr>"
  by (simp add: httpProbe_def probe_catch_def)

lemma httpProbe_http_failed:
  "fetch (''https://'' @ h) = FetchThrew (Error n m) \<Longrightarrow> n \<noteq> ''AbortError'' \<Longrightarrow>
   fetch (''http://'' @ h) = FetchThrew (Error n' m') \<Longrightarrow>
   httpProbe fetch h =
     \<lparr>status = 0, body = [],
      error = (if n' = ''AbortError'' then ''Timeout'' else ''Connection Failed''),
      probe_result.serverHeader = []\<rparr>"
  by (simp add: httpProbe_def probe_catch_def)

text \<open>
  Claim C7 says that a failure of the http attempt ends the probe with errorKind
  Connection Failed and httpStatusCode 0. The probe stores the status of a response
  before it reads the body and does not reset it: when the https server answers 200 and
  the body cannot be read, and the http attempt then fails, the result carries
  Connection Failed together with the status 200 of the https attempt.
\<close>

theorem httpProbe_stale_status:
  "httpProbe fetch_broken_body ''shop.example.com'' =
     \<lparr>status = 200, body = [], error = ''Connection Failed'', probe_result.serverHeader = []\<rparr>"
  by code_simp

section \<open>Properties of the scan\<close>

text \<open>With that probe result, a dangling alias into a recognized provider is reported as
  an active subdomain; with both connections refused it is a dangling pointer.\<close>

lemma scanSubdomain_broken_body:
  "riskLabel (scanSubdomain sample_fingerprints sample_providers doh_dangling fetch_broken_body
      sample_now ''shop.example.com'') = ''Active Subdomain - Verify Ownership''
   \<and> riskLabel (scanSubdomain sample_fingerprints sample_providers doh_dangling fetch_refused
      sample_now ''shop.example.com'') = ''Dangling Pointer to 3rd Party (No Fingerprint)''"
  by code_simp

text \<open>
  Claim C9. For every non-empty hostname (every parsed hostname is non-empty, see
  \<open>parseDomainsFromText_entries\<close>), the cname field of the scan result is not empty.
  A resolution with status NXDOMAIN has an empty target; and whenever the target is
  empty, the cname field is the input hostname, the provider is the one identified from
  the input hostname, and risk level and label are those the classifier gives for the
  input hostname with the fingerprint matched against the input hostname.
\<close>

theorem scanSubdomain_effective_cname:
  assumes "host \<noteq> []"
  shows "cname (scanSubdomain fps pm fetch_doh fetch now host) \<noteq> []
    \<and> (dns_result.dnsStatus (dnsLookup fetch_doh host) = NXDOMAIN \<longrightarrow>
         cnameTarget (dnsLookup fetch_doh host) = [])
    \<and> (cnameTarget (dnsLookup fetch_doh host) = [] \<longrightarrow>
         cname (scanSubdomain fps pm fetch_doh fetch now host) = host
         \<and> provider (scanSubdomain fps pm fetch_doh fetch now host) = identifyProvider pm host
         \<and> \<lparr>risk_result.riskLevel = riskLevel (scanSubdomain fps pm fetch_doh fetch now host),
             risk_result.riskLabel = riskLabel (scanSubdomain fps pm fetch_doh fetch now host)\<rparr> =
           classifyRisk (dns_status_str (dns_result.dnsStatus (dnsLookup fetch_doh host)))
             (status (httpProbe fetch host))
             (matchedSignature (checkFingerprint fps pm host (body (httpProbe fetch host))))
             (error (httpProbe fetch host)) (identifyProvider pm host) host)"
  using assms dnsLookup_NXDOMAIN_target [of fetch_doh host]
  by (simp add: scanSubdomain_def Let_def)

text \<open>Claim C9 at a hostname that does not exist and does not answer.\<close>

theorem scanSubdomain_effective_cname_witness:
  "cname (scanSubdomain sample_fingerprints sample_providers doh_nxdomain fetch_refused sample_now
            ''gone.example.com'') \<noteq> []
   \<and> cnameTarget (dnsLookup doh_nxdomain ''gone.example.com'') = []
   \<and> cname (scanSubdomain sample_fingerprints sample_providers doh_nxdomain fetch_refused sample_now
            ''gone.example.com'') = ''gone.example.com''
   \<and> provider (scanSubdomain sample_fingerprints sample_providers doh_nxdomain fetch_refused
            sample_now ''gone.example.com'') = identifyProvider sample_providers ''gone.example.com''"
proof -
  have h: "''gone.example.com'' \<noteq> []"
    by simp
  have nx: "dns_result.dnsStatus (dnsLookup doh_nxdomain ''gone.example.com'') = NXDOMAIN"
    by code_simp
  note c = scanSubdomain_effective_cname [where host = "''gone.example.com''"
      and fetch_doh = doh_nxdomain and fps = sample_fingerprints and pm = sample_providers
      and fetch = fetch_refused and now = sample_now, OF h]
  from c nx show ?thesis
    by blast
qed

text \<open>
  Claim C1, as stated: every hostname with dnsStatus NXDOMAIN is classified LOW, No DNS
  Record - Not Exploitable, None - NXDOMAIN. The classifier runs on the input hostname
  itself and tries the NXDOMAIN rule after the provider rules: a hostname under a
  recognized provider domain that does not exist and does not answer is HIGH, a
  dangling pointer.
\<close>

theorem scanSubdomain_nxdomain_counterexample:
  "ScanResult.dnsStatus (scanSubdomain sample_fingerprints sample_providers doh_nxdomain
      fetch_refused sample_now ''gone.herokuapp.com'') = NXDOMAIN
   \<and> riskLevel (scanSubdomain sample_fingerprints sample_providers doh_nxdomain fetch_refused
      sample_now ''gone.herokuapp.com'') = HIGH
   \<and> riskLabel (scanSubdomain sample_fingerprints sample_providers doh_nxdomain fetch_refused
      sample_now ''gone.herokuapp.com'') = ''Dangling Pointer to 3rd Party (No Fingerprint)''
   \<and> securityIssue (scanSubdomain sample_fingerprints sample_providers doh_nxdomain fetch_refused
      sample_now ''gone.herokuapp.com'') = ''Dangling DNS Record''"
  by code_simp

text \<open>
  Claim C1, amended. A hostname with dnsStatus NXDOMAIN is classified LOW, No DNS
  Record - Not Exploitable, None - NXDOMAIN, when no earlier rule of the classifier
  applies to the signals computed from the input hostname itself: its cleaned name is
  not one of the three Google names; it does not contain \<^verbatim>\<open>google.com\<close> while its
  provider is unknown; if the probe is broken (status 0 or at least 400), its provider is
  unknown and no fingerprint matched; and it is not a hostname of a recognized provider
  that answers 200 with a fingerprint.
\<close>

theorem scanSubdomain_nxdomain_low:
  assumes "dns_result.dnsStatus (dnsLookup fetch_doh host) = NXDOMAIN"
    and "cleanCname host \<notin> set google_main"
    and "identifyProvider pm host = ''Unknown Provider'' \<longrightarrow>
           \<not> str_includes (cleanCname host) ''google.com''"
    and "isBroken (status (httpProbe fetch host)) \<longrightarrow>
           \<not> isThirdParty (identifyProvider pm host)
           \<and> \<not> hasFingerprint (matchedSignature
                 (checkFingerprint fps pm host (body (httpProbe fetch host))))"
    and "\<not> (isThirdParty (identifyProvider pm host)
            \<and> status (httpProbe fetch host) = 200
            \<and> hasFingerprint (matchedSignature
                 (checkFingerprint fps pm host (body (httpProbe fetch host)))))"
  shows "riskLevel (scanSubdomain fps pm fetch_doh fetch now host) = LOW
       \<and> riskLabel (scanSubdomain fps pm fetch_doh fetch now host) =
           ''No DNS Record - Not Exploitable''
       \<and> securityIssue (scanSubdomain fps pm fetch_doh fetch now host) = ''None - NXDOMAIN''"
proof -
  from assms(1) have t: "cnameTarget (dnsLookup fetch_doh host) = []"
    by (rule dnsLookup_NXDOMAIN_target)
  have r: "classifyRisk ''NXDOMAIN'' (status (httpProbe fetch host))
             (matchedSignature (checkFingerprint fps pm host (body (httpProbe fetch host))))
             (error (httpProbe fetch host)) (identifyProvider pm host) host
           = \<lparr>risk_result.riskLevel = LOW,
              risk_result.riskLabel = ''No DNS Record - Not Exploitable''\<rparr>"
    using assms(2-5) by (auto simp add: classifyRisk_def)
  show ?thesis
    using assms(1) t r
    by (simp add: scanSubdomain_def Let_def determineSecurityIssue_def)
qed

text \<open>Claim C1, amended, at a hostname of no known provider that does not exist and does
  not answer.\<close>

theorem scanSubdomain_nxdomain_low_witness:
  "riskLevel (scanSubdomain sample_fingerprints sample_providers doh_nxdomain fetch_refused
      sample_now ''gone.example.com'') = LOW
   \<and> riskLabel (scanSubdomain sample_fingerprints sample_providers doh_nxdomain fetch_refused
      sample_now ''gone.example.com'') = ''No DNS Record - Not Exploitable''
   \<and> securityIssue (scanSubdomain sample_fingerprints sample_providers doh_nxdomain fetch_refused
      sample_now ''gone.example.com'') = ''None - NXDOMAIN''"
proof -
  have h1: "dns_result.dnsStatus (dnsLookup doh_nxdomain ''gone.example.com'') = NXDOMAIN"
    by code_simp
  have h2: "cleanCname ''gone.example.com'' \<notin> set google_main"
    by code_simp
  have h3: "identifyProvider sample_providers ''gone.example.com'' = ''Unknown Provider'' \<longrightarrow>
           \<not> str_includes (cleanCname ''gone.example.com'') ''google.com''"
    by code_simp
  have h4: "isBroken (status (httpProbe fetch_refused ''gone.example.com'')) \<longrightarrow>
           \<not> isThirdParty (identifyProvider sample_providers ''gone.example.com'')
           \<and> \<not> hasFingerprint (matchedSignature
                 (checkFingerprint sample_fingerprints sample_providers ''gone.example.com''
                    (body (httpProbe fetch_refused ''gone.example.com''))))"
    by code_simp
  have h5: "\<not> (isThirdParty (identifyProvider sample_providers ''gone.example.com'')
            \<and> status (httpProbe fetch_refused ''gone.example.com'') = 200
            \<and> hasFingerprint (matchedSignature
                 (checkFingerprint sample_fingerprints sample_providers ''gone.example.com''
                    (body (httpProbe fetch_refused ''gone.example.com'')))))"
    by code_simp
  show ?thesis
    by (rule scanSubdomain_nxdomain_low [OF h1 h2 h3 h4 h5])
qed

end
